theory Spec2Isabelle
  imports Main "HOL-Library.Word"
begin

section \<open>Common C types\<close>

text \<open>
  Both bridges are C-callable shims compiled for 64-bit hosts. A pointer is its
  address; the null pointer is address 0. \<open>int32_t\<close>, \<open>uint32_t\<close>, \<open>int\<close>
  and \<open>LLVMBool\<close> (a typedef of \<open>int\<close>) are 32 bits wide. A 32-bit parameter is
  the word the caller passed; its value is \<open>sint\<close> of the word for a signed type
  and \<open>uint\<close> of it for an unsigned one.
\<close>

type_synonym ptr = "64 word"
type_synonym int32_t = "32 word"
type_synonym uint32_t = "32 word"
type_synonym LLVMBool = "32 word"

abbreviation NULL :: ptr where
  "NULL \<equiv> 0"

section \<open>ILGPU.LLVM: Extensions.cpp\<close>

subsection \<open>What the bridge sees of LLVM\<close>

text \<open>
  \<open>LLVMModuleRef\<close> and \<open>LLVMValueRef\<close> are opaque handles; \<open>unwrap\<close> is a
  pointer cast and keeps the address. A \<open>const GlobalValue &\<close> handed to the
  internalization callback is an object with an address and a name.
\<close>

type_synonym LLVMModuleRef = ptr
type_synonym LLVMValueRef = ptr

definition unwrap :: "ptr \<Rightarrow> ptr" where
  "unwrap h = h"

record GlobalValue =
  address_of :: ptr
  getName :: string

text \<open>
  The three pass factories the bridge calls. A pass object is what its factory
  was given: the reflect pass its \<open>StringMap<int>\<close>, the internalize pass its
  must-preserve callback.
\<close>

datatype pass =
    createNVVMReflectPass "string \<rightharpoonup> int"
  | createInternalizePass "GlobalValue \<Rightarrow> bool"
  | createGlobalDCEPass

text \<open>
  \<open>legacy::PassManager\<close> and \<open>legacy::FunctionPassManager\<close> hold the passes in
  the order of the \<open>add\<close> calls. A function pass manager is built for a module.
\<close>

type_synonym PassManager = "pass list"

record FunctionPassManager =
  fpm_module :: ptr
  fpm_passes :: "pass list"

definition PassManager_new :: PassManager where
  "PassManager_new = []"

definition PassManager_add :: "PassManager \<Rightarrow> pass \<Rightarrow> PassManager" where
  "PassManager_add pm p = pm @ [p]"

definition FunctionPassManager_new :: "ptr \<Rightarrow> FunctionPassManager" where
  "FunctionPassManager_new m = \<lparr>fpm_module = m, fpm_passes = []\<rparr>"

definition FunctionPassManager_add :: "FunctionPassManager \<Rightarrow> pass \<Rightarrow> FunctionPassManager" where
  "FunctionPassManager_add fpm p = fpm\<lparr>fpm_passes := fpm_passes fpm @ [p]\<rparr>"

text \<open>
  Running a pass manager is LLVM's work, not the bridge's: it is a parameter.
  \<open>'w\<close> is the state of the compiler's world (the IR behind the handles).
  \<open>PassManager_run L pm m w\<close> is \<open>pm.run(*m)\<close>, and
  \<open>FunctionPassManager_run L fpm f w\<close> is \<open>fpm.run(*f)\<close>; both return \<open>void\<close>
  to the bridge, so only the new world is kept.
\<close>

record 'w llvm =
  PassManager_run :: "PassManager \<Rightarrow> ptr \<Rightarrow> 'w \<Rightarrow> 'w"
  FunctionPassManager_run :: "FunctionPassManager \<Rightarrow> ptr \<Rightarrow> 'w \<Rightarrow> 'w"

subsection \<open>The bridge\<close>

definition CreateNVVMReflectPass :: "LLVMBool \<Rightarrow> LLVMBool \<Rightarrow> pass" where
  "CreateNVVMReflectPass ftz fm =
    (let mapping = Map.empty;
         mapping = (if ftz \<noteq> 0 then mapping(''__CUDA_FTZ'' \<mapsto> 1) else mapping);
         mapping = (if fm \<noteq> 0
                    then (mapping(''__CUDA_PREC_DIV'' \<mapsto> 0))(''__CUDA_PREC_SQRT'' \<mapsto> 0)
                    else mapping)
     in createNVVMReflectPass mapping)"

definition ILGPU_RunNVVMReflectPassOnFunction ::
  "'w llvm \<Rightarrow> LLVMModuleRef \<Rightarrow> LLVMValueRef \<Rightarrow> LLVMBool \<Rightarrow> LLVMBool \<Rightarrow> 'w \<Rightarrow> 'w" where
  "ILGPU_RunNVVMReflectPassOnFunction L module func ftz fm w =
    (let target = unwrap func;
         fpm = FunctionPassManager_new (unwrap module);
         fpm = FunctionPassManager_add fpm (CreateNVVMReflectPass ftz fm)
     in FunctionPassManager_run L fpm target w)"

definition ILGPU_RunNVVMReflectPass ::
  "'w llvm \<Rightarrow> LLVMModuleRef \<Rightarrow> LLVMBool \<Rightarrow> LLVMBool \<Rightarrow> 'w \<Rightarrow> 'w" where
  "ILGPU_RunNVVMReflectPass L module ftz fm w =
    (let pm = PassManager_new;
         pm = PassManager_add pm (CreateNVVMReflectPass ftz fm)
     in PassManager_run L pm (unwrap module) w)"

definition ILGPU_PreparePTXModule ::
  "'w llvm \<Rightarrow> LLVMModuleRef \<Rightarrow> LLVMValueRef \<Rightarrow> LLVMBool \<Rightarrow> LLVMBool \<Rightarrow> 'w \<Rightarrow> 'w" where
  "ILGPU_PreparePTXModule L module entry ftz fm w =
    (let entryPoint = unwrap entry;
         pm = PassManager_new;
         pm = PassManager_add pm (createInternalizePass (\<lambda>val. address_of val = entryPoint));
         pm = PassManager_add pm createGlobalDCEPass;
         pm = PassManager_add pm (CreateNVVMReflectPass ftz fm)
     in PassManager_run L pm (unwrap module) w)"

section \<open>ILGPU.Lightning.Native: the CUB exports\<close>

subsection \<open>What the bridge sees of CUB\<close>

text \<open>
  An argument of a call into CUB is a pointer passed by value, the lvalue
  \<open>*p\<close> bound to a \<open>size_t &\<close> parameter (\<open>DerefArg p\<close>: the callee
  gets the object at \<open>p\<close>, the bridge itself reads nothing), or a value of
  type \<open>int\<close>. \<open>cudaStream_t\<close> is a pointer type. \<open>cudaError_t\<close> is an
  enumeration, kept as its number.
\<close>

datatype arg = PtrArg ptr | DerefArg ptr | IntArg int

type_synonym cudaError_t = int

text \<open>
  CUB is a parameter: \<open>cub callee cType args d\<close> is the call of the function
  named \<open>callee\<close>, instantiated for element type \<open>cType\<close>, on the arguments
  \<open>args\<close> in the order they are written, in the world \<open>d\<close> (host and device
  memory, streams). It returns the status and the new world.
\<close>

type_synonym 'd cub = "string \<Rightarrow> string \<Rightarrow> arg list \<Rightarrow> 'd \<Rightarrow> cudaError_t \<times> 'd"

text \<open>
  The cast \<open>(int)v\<close> of an integer value \<open>v\<close>: the value of \<open>int\<close>
  congruent to \<open>v\<close> modulo \<open>2^32\<close>.
\<close>

definition c_int :: "int \<Rightarrow> int" where
  "c_int v = (v + 2 ^ 31) mod 2 ^ 32 - 2 ^ 31"

subsection \<open>SignedVariants.h and UnsignedVariants.h\<close>

definition SignedVariants :: "(string \<Rightarrow> string \<Rightarrow> 'a) \<Rightarrow> 'a list" where
  "SignedVariants SPECIALIZATION_SIGNED =
    [SPECIALIZATION_SIGNED ''Int8'' ''int8_t'',
     SPECIALIZATION_SIGNED ''Int16'' ''int16_t'',
     SPECIALIZATION_SIGNED ''Int32'' ''int32_t'',
     SPECIALIZATION_SIGNED ''Int64'' ''int64_t'']"

definition UnsignedVariants :: "(string \<Rightarrow> string \<Rightarrow> 'a) \<Rightarrow> 'a list" where
  "UnsignedVariants SPECIALIZATION_UNSIGNED =
    [SPECIALIZATION_UNSIGNED ''UInt8'' ''uint8_t'',
     SPECIALIZATION_UNSIGNED ''UInt16'' ''uint16_t'',
     SPECIALIZATION_UNSIGNED ''UInt32'' ''uint32_t'',
     SPECIALIZATION_UNSIGNED ''UInt64'' ''uint64_t'']"

subsection \<open>The export macros\<close>

text \<open>
  A macro parameter is a token, kept as a string, and \<open>##\<close> is \<open>@\<close>. Each
  \<open>..._GEN\<close> macro defines one exported function: the model gives its name and
  its body, the body taking CUB first. The macros of RadixSortPairs.h and
  SegmentedRadixSortPairs.h have the names of those of RadixSort.h and
  SegmentedRadixSort.h; here they end in \<open>_Pairs\<close>.
\<close>

type_synonym 'd sort_export =
  "ptr \<Rightarrow> ptr \<Rightarrow> ptr \<Rightarrow> ptr \<Rightarrow> int32_t \<Rightarrow> int32_t \<Rightarrow> int32_t \<Rightarrow> ptr
   \<Rightarrow> 'd \<Rightarrow> cudaError_t \<times> 'd"

type_synonym 'd sort_pairs_export =
  "ptr \<Rightarrow> ptr \<Rightarrow> ptr \<Rightarrow> ptr \<Rightarrow> ptr \<Rightarrow> ptr \<Rightarrow> int32_t \<Rightarrow> int32_t \<Rightarrow> int32_t \<Rightarrow> ptr
   \<Rightarrow> 'd \<Rightarrow> cudaError_t \<times> 'd"

type_synonym 'd segmented_export =
  "ptr \<Rightarrow> ptr \<Rightarrow> ptr \<Rightarrow> ptr \<Rightarrow> int32_t \<Rightarrow> ptr \<Rightarrow> ptr \<Rightarrow> int32_t \<Rightarrow> int32_t \<Rightarrow> int32_t
   \<Rightarrow> ptr \<Rightarrow> 'd \<Rightarrow> cudaError_t \<times> 'd"

type_synonym 'd segmented_pairs_export =
  "ptr \<Rightarrow> ptr \<Rightarrow> ptr \<Rightarrow> ptr \<Rightarrow> ptr \<Rightarrow> ptr \<Rightarrow> int32_t \<Rightarrow> ptr \<Rightarrow> ptr \<Rightarrow> int32_t \<Rightarrow> int32_t
   \<Rightarrow> int32_t \<Rightarrow> ptr \<Rightarrow> 'd \<Rightarrow> cudaError_t \<times> 'd"

type_synonym 'd scan_export =
  "ptr \<Rightarrow> ptr \<Rightarrow> ptr \<Rightarrow> ptr \<Rightarrow> uint32_t \<Rightarrow> ptr \<Rightarrow> 'd \<Rightarrow> cudaError_t \<times> 'd"

definition MAKE_RADIXSORT_GEN ::
  "string \<Rightarrow> string \<Rightarrow> string \<Rightarrow> string \<Rightarrow> string \<Rightarrow> string \<times> ('d cub \<Rightarrow> 'd sort_export)" where
  "MAKE_RADIXSORT_GEN prefix variant cubName typeName cType =
    (''Cuda'' @ prefix @ variant @ ''RadixSort'' @ typeName,
     \<lambda>cub tempStorage tempStorageSize source target numElements beginBit endBit stream.
       cub (''cub::DeviceRadixSort::'' @ cubName @ prefix) cType
         [PtrArg tempStorage,
          DerefArg tempStorageSize,
          PtrArg source,
          PtrArg target,
          IntArg (c_int (sint numElements)),
          IntArg (c_int (sint beginBit)),
          IntArg (c_int (sint endBit)),
          PtrArg stream])"


definition MAKE_RADIXSORT_GEN_Pairs ::
  "string \<Rightarrow> string \<Rightarrow> string \<Rightarrow> string \<Rightarrow> string
   \<Rightarrow> string \<times> ('d cub \<Rightarrow> 'd sort_pairs_export)" where
  "MAKE_RADIXSORT_GEN_Pairs prefix variant cubName typeName cType =
    (''Cuda'' @ prefix @ variant @ ''RadixSort'' @ typeName @ ''IndexPairs'',
     \<lambda>cub tempStorage tempStorageSize source target valuesSource valuesTarget
        numElements beginBit endBit stream.
       cub (''cub::DeviceRadixSort::'' @ cubName @ prefix) cType
         [PtrArg tempStorage,
          DerefArg tempStorageSize,
          PtrArg source,
          PtrArg target,
          PtrArg valuesSource,
          PtrArg valuesTarget,
          IntArg (c_int (sint numElements)),
          IntArg (c_int (sint beginBit)),
          IntArg (c_int (sint endBit)),
          PtrArg stream])"


definition MAKE_SEGMENTED_RADIXSORT_GEN ::
  "string \<Rightarrow> string \<Rightarrow> string \<Rightarrow> string \<Rightarrow> string \<Rightarrow> string
   \<Rightarrow> string \<times> ('d cub \<Rightarrow> 'd segmented_export)" where
  "MAKE_SEGMENTED_RADIXSORT_GEN prefix postfix variant cubName typeName cType =
    (''Cuda'' @ postfix @ prefix @ variant @ ''RadixSort'' @ typeName,
     \<lambda>cub tempStorage tempStorageSize source target numElements beginOffsets endOffsets
        numSegments beginBit endBit stream.
       cub (''cub::DeviceSegmentedRadixSort::'' @ cubName @ prefix) cType
         [PtrArg tempStorage,
          DerefArg tempStorageSize,
          PtrArg source,
          PtrArg target,
          IntArg (c_int (sint numElements)),
          IntArg (c_int (sint numSegments)),
          PtrArg beginOffsets,
          PtrArg endOffsets,
          IntArg (c_int (sint beginBit)),
          IntArg (c_int (sint endBit)),
          PtrArg stream])"

definition MAKE_SEGMENTED_RADIXSORT ::
  "string \<Rightarrow> string \<Rightarrow> string \<Rightarrow> string
   \<Rightarrow> (string \<times> ('d cub \<Rightarrow> 'd segmented_export)) list" where
  "MAKE_SEGMENTED_RADIXSORT variant cubName typeName cType =
    [MAKE_SEGMENTED_RADIXSORT_GEN [] ''Segmented'' variant cubName typeName cType,
     MAKE_SEGMENTED_RADIXSORT_GEN ''Descending'' ''Segmented'' variant cubName typeName cType]"

definition MAKE_SEGMENTED_RADIXSORT_GEN_Pairs ::
  "string \<Rightarrow> string \<Rightarrow> string \<Rightarrow> string \<Rightarrow> string \<Rightarrow> string
   \<Rightarrow> string \<times> ('d cub \<Rightarrow> 'd segmented_pairs_export)" where
  "MAKE_SEGMENTED_RADIXSORT_GEN_Pairs prefix postfix variant cubName typeName cType =
    (''Cuda'' @ postfix @ prefix @ variant @ ''RadixSort'' @ typeName @ ''IndexPairs'',
     \<lambda>cub tempStorage tempStorageSize source target valuesSource valuesTarget numElements
        beginOffsets endOffsets numSegments beginBit endBit stream.
       cub (''cub::DeviceSegmentedRadixSort::'' @ cubName @ prefix) cType
         [PtrArg tempStorage,
          DerefArg tempStorageSize,
          PtrArg source,
          PtrArg target,
          PtrArg valuesSource,
          PtrArg valuesTarget,
          IntArg (c_int (sint numElements)),
          IntArg (c_int (sint numSegments)),
          PtrArg beginOffsets,
          PtrArg endOffsets,
          IntArg (c_int (sint beginBit)),
          IntArg (c_int (sint endBit)),
          PtrArg stream])"


definition MAKE_SCAN ::
  "string \<Rightarrow> string \<Rightarrow> string \<Rightarrow> string \<times> ('d cub \<Rightarrow> 'd scan_export)" where
  "MAKE_SCAN variant typeName cType =
    (''Cuda'' @ variant @ ''Scan'' @ typeName,
     \<lambda>cub tempStorage tempStorageSize source target numElements stream.
       cub (''cub::DeviceScan::'' @ variant @ ''Sum'') cType
         [PtrArg tempStorage,
          DerefArg tempStorageSize,
          PtrArg source,
          PtrArg target,
          IntArg (c_int (uint numElements)),
          PtrArg stream])"

text \<open>The two halves of what a macro defines.\<close>

abbreviation export_name :: "string \<times> 'f \<Rightarrow> string" where
  "export_name \<equiv> fst"

abbreviation export_body :: "string \<times> 'f \<Rightarrow> 'f" where
  "export_body \<equiv> snd"

section \<open>Definitions used to state the properties\<close>

text \<open>
  The configuration table of the specification, read as a map: a true
  \<open>flag_ftz\<close> gives the entry enabling flush-to-zero, a true
  \<open>flag_precise_div_sqrt\<close> the two entries disabling precise division and
  precise square root, and nothing else is in the map. A flag is true when it
  is nonzero. This definition follows the specification; the code's map is
  \<open>CreateNVVMReflectPass\<close>.
\<close>

definition spec_reflect_mapping :: "LLVMBool \<Rightarrow> LLVMBool \<Rightarrow> string \<rightharpoonup> int" where
  "spec_reflect_mapping flag_ftz flag_precise_div_sqrt k =
    (if k = ''__CUDA_FTZ'' then (if flag_ftz \<noteq> 0 then Some 1 else None)
     else if k = ''__CUDA_PREC_DIV'' \<or> k = ''__CUDA_PREC_SQRT''
       then (if flag_precise_div_sqrt \<noteq> 0 then Some 0 else None)
     else None)"

text \<open>
  LLVM's contract for function passes: running a function pass manager on a
  function changes nothing of any other function or global. \<open>content w g\<close> is
  what the world \<open>w\<close> holds for the global value at address \<open>g\<close>.
\<close>

definition scoped_to_function :: "'w llvm \<Rightarrow> ('w \<Rightarrow> ptr \<Rightarrow> 'c) \<Rightarrow> bool" where
  "scoped_to_function L content \<longleftrightarrow>
    (\<forall>fpm f w g. g \<noteq> f \<longrightarrow> content (FunctionPassManager_run L fpm f w) g = content w g)"

text \<open>
  Two stand-ins for the libraries, for running the exports on concrete inputs.
  \<open>counting_llvm\<close> keeps, for every global value, how many passes have run
  over it. \<open>recording_cub\<close> succeeds (status 0) and appends the call it
  received to a log.
\<close>

definition counting_llvm :: "(ptr \<Rightarrow> nat) llvm" where
  "counting_llvm =
    \<lparr>PassManager_run = (\<lambda>pm m w g. w g + length pm),
     FunctionPassManager_run = (\<lambda>fpm f w. w(f := w f + length (fpm_passes fpm)))\<rparr>"

definition recording_cub :: "(string \<times> string \<times> arg list) list cub" where
  "recording_cub callee cType args d = (0, d @ [(callee, cType, args)])"



section \<open>The casts\<close>

lemma c_int_sint: "c_int (sint (x :: 32 word)) = sint x"
proof -
  have lo: "- (2 ^ 31) \<le> sint x" using sint_ge [of x] by simp
  have hi: "sint x < 2 ^ 31" using sint_lt [of x] by simp
  from lo hi have "(sint x + 2 ^ 31) mod 2 ^ 32 = sint x + 2 ^ 31"
    by (intro mod_pos_pos_trivial) auto
  then show ?thesis by (simp add: c_int_def)
qed

lemma c_int_uint:
  "c_int (uint (x :: 32 word)) = (if uint x < 2 ^ 31 then uint x else uint x - 2 ^ 32)"
proof -
  have lo: "0 \<le> uint x" by simp
  have hi: "uint x < 2 ^ 32" using uint_bounded [of x] by simp
  show ?thesis
  proof (cases "uint x < 2 ^ 31")
    case True
    with lo have "(uint x + 2 ^ 31) mod 2 ^ 32 = uint x + 2 ^ 31"
      by (intro mod_pos_pos_trivial) auto
    with True show ?thesis by (simp add: c_int_def)
  next
    case False
    have "uint x + 2 ^ 31 = (uint x - 2 ^ 31) + 2 ^ 32"
      by simp
    then have "(uint x + 2 ^ 31) mod 2 ^ 32 = (uint x - 2 ^ 31 + 2 ^ 32) mod 2 ^ 32"
      by (rule arg_cong)
    also have "\<dots> = (uint x - 2 ^ 31) mod 2 ^ 32"
      by (rule mod_add_self2)
    also from False hi have "\<dots> = uint x - 2 ^ 31"
      by (intro mod_pos_pos_trivial) auto
    finally show ?thesis using False by (simp add: c_int_def)
  qed
qed

section \<open>What each export hands to its library\<close>

lemma CreateNVVMReflectPass_mapping:
  "CreateNVVMReflectPass ftz fm = createNVVMReflectPass (spec_reflect_mapping ftz fm)"
proof -
  have "(if fm \<noteq> 0
         then ((if ftz \<noteq> 0 then Map.empty(''__CUDA_FTZ'' \<mapsto> 1) else Map.empty)
                (''__CUDA_PREC_DIV'' \<mapsto> 0))(''__CUDA_PREC_SQRT'' \<mapsto> 0)
         else (if ftz \<noteq> 0 then Map.empty(''__CUDA_FTZ'' \<mapsto> 1) else Map.empty))
        = spec_reflect_mapping ftz fm"
    by (rule ext) (simp add: spec_reflect_mapping_def)
  then show ?thesis
    by (simp add: CreateNVVMReflectPass_def Let_def)
qed

lemma RunOnFunction_unfold:
  "ILGPU_RunNVVMReflectPassOnFunction L module func ftz fm w =
     FunctionPassManager_run L
       \<lparr>fpm_module = module, fpm_passes = [CreateNVVMReflectPass ftz fm]\<rparr> func w"
  by (simp add: ILGPU_RunNVVMReflectPassOnFunction_def FunctionPassManager_new_def
      FunctionPassManager_add_def unwrap_def Let_def)

lemma RunOnModule_unfold:
  "ILGPU_RunNVVMReflectPass L module ftz fm w =
     PassManager_run L [CreateNVVMReflectPass ftz fm] module w"
  by (simp add: ILGPU_RunNVVMReflectPass_def PassManager_new_def PassManager_add_def
      unwrap_def Let_def)

lemma PreparePTXModule_unfold:
  "ILGPU_PreparePTXModule L module entry ftz fm w =
     PassManager_run L
       [createInternalizePass (\<lambda>val. address_of val = entry),
        createGlobalDCEPass,
        CreateNVVMReflectPass ftz fm] module w"
  by (simp add: ILGPU_PreparePTXModule_def PassManager_new_def PassManager_add_def
      unwrap_def Let_def)

lemma RadixSort_body:
  "export_body (MAKE_RADIXSORT_GEN prefix variant cubName typeName cType) cub
     tempStorage tempStorageSize source target numElements beginBit endBit stream d =
   cub (''cub::DeviceRadixSort::'' @ cubName @ prefix) cType
     [PtrArg tempStorage, DerefArg tempStorageSize, PtrArg source, PtrArg target,
      IntArg (sint numElements), IntArg (sint beginBit), IntArg (sint endBit),
      PtrArg stream] d"
  by (simp add: MAKE_RADIXSORT_GEN_def c_int_sint)

lemma RadixSortPairs_body:
  "export_body (MAKE_RADIXSORT_GEN_Pairs prefix variant cubName typeName cType) cub
     tempStorage tempStorageSize source target valuesSource valuesTarget
     numElements beginBit endBit stream d =
   cub (''cub::DeviceRadixSort::'' @ cubName @ prefix) cType
     [PtrArg tempStorage, DerefArg tempStorageSize, PtrArg source, PtrArg target,
      PtrArg valuesSource, PtrArg valuesTarget,
      IntArg (sint numElements), IntArg (sint beginBit), IntArg (sint endBit),
      PtrArg stream] d"
  by (simp add: MAKE_RADIXSORT_GEN_Pairs_def c_int_sint)

lemma SegmentedRadixSort_body:
  "export_body (MAKE_SEGMENTED_RADIXSORT_GEN prefix postfix variant cubName typeName cType) cub
     tempStorage tempStorageSize source target numElements beginOffsets endOffsets
     numSegments beginBit endBit stream d =
   cub (''cub::DeviceSegmentedRadixSort::'' @ cubName @ prefix) cType
     [PtrArg tempStorage, DerefArg tempStorageSize, PtrArg source, PtrArg target,
      IntArg (sint numElements), IntArg (sint numSegments),
      PtrArg beginOffsets, PtrArg endOffsets,
      IntArg (sint beginBit), IntArg (sint endBit), PtrArg stream] d"
  by (simp add: MAKE_SEGMENTED_RADIXSORT_GEN_def c_int_sint)

lemma SegmentedRadixSortPairs_body:
  "export_body
     (MAKE_SEGMENTED_RADIXSORT_GEN_Pairs prefix postfix variant cubName typeName cType) cub
     tempStorage tempStorageSize source target valuesSource valuesTarget numElements
     beginOffsets endOffsets numSegments beginBit endBit stream d =
   cub (''cub::DeviceSegmentedRadixSort::'' @ cubName @ prefix) cType
     [PtrArg tempStorage, DerefArg tempStorageSize, PtrArg source, PtrArg target,
      PtrArg valuesSource, PtrArg valuesTarget,
      IntArg (sint numElements), IntArg (sint numSegments),
      PtrArg beginOffsets, PtrArg endOffsets,
      IntArg (sint beginBit), IntArg (sint endBit), PtrArg stream] d"
  by (simp add: MAKE_SEGMENTED_RADIXSORT_GEN_Pairs_def c_int_sint)

lemma Scan_body:
  "export_body (MAKE_SCAN variant typeName cType) cub
     tempStorage tempStorageSize source target numElements stream d =
   cub (''cub::DeviceScan::'' @ variant @ ''Sum'') cType
     [PtrArg tempStorage, DerefArg tempStorageSize, PtrArg source, PtrArg target,
      IntArg (if uint numElements < 2 ^ 31 then uint numElements
              else uint numElements - 2 ^ 32),
      PtrArg stream] d"
  by (simp only: MAKE_SCAN_def snd_conv c_int_uint)

subsection \<open>The exports on concrete inputs\<close>

lemma scan_export_names:
  "map export_name
     (SignedVariants (MAKE_SCAN ''Inclusive'') @ UnsignedVariants (MAKE_SCAN ''Inclusive'')
      :: (string \<times> (unit cub \<Rightarrow> unit scan_export)) list) =
   [''CudaInclusiveScanInt8'', ''CudaInclusiveScanInt16'', ''CudaInclusiveScanInt32'',
    ''CudaInclusiveScanInt64'', ''CudaInclusiveScanUInt8'', ''CudaInclusiveScanUInt16'',
    ''CudaInclusiveScanUInt32'', ''CudaInclusiveScanUInt64'']"
  by (simp add: SignedVariants_def UnsignedVariants_def MAKE_SCAN_def)

lemma scan_largest_count_recorded:
  "export_body (MAKE_SCAN ''Inclusive'' ''Int32'' ''int32_t'') recording_cub
     0 8 16 24 4294967295 0 [] =
   (0, [(''cub::DeviceScan::InclusiveSum'', ''int32_t'',
         [PtrArg 0, DerefArg 8, PtrArg 16, PtrArg 24, IntArg (- 1), PtrArg 0])])"
  by (simp add: MAKE_SCAN_def recording_cub_def c_int_def)

lemma segmented_descending_recorded:
  "export_body (MAKE_SEGMENTED_RADIXSORT [] ''SortKeys'' ''UInt32'' ''uint32_t'' ! 1)
     recording_cub 0 8 16 24 6 32 40 2 0 32 0 [] =
   (0, [(''cub::DeviceSegmentedRadixSort::SortKeysDescending'', ''uint32_t'',
         [PtrArg 0, DerefArg 8, PtrArg 16, PtrArg 24, IntArg 6, IntArg 2,
          PtrArg 32, PtrArg 40, IntArg 0, IntArg 32, PtrArg 0])])"
  by (simp add: MAKE_SEGMENTED_RADIXSORT_def MAKE_SEGMENTED_RADIXSORT_GEN_def
      recording_cub_def c_int_def)

section \<open>The reflect-pass bridge\<close>

text \<open>
  Claim C1. Each of the three exports that build the reflect pass
  (run on a function, run on a module, prepare for deployment) hands LLVM the
  pass made from the map the two flags determine: a nonzero \<open>ftz\<close> gives the
  one entry \<open>__CUDA_FTZ = 1\<close>, a nonzero \<open>fm\<close> exactly the two entries
  \<open>__CUDA_PREC_DIV = 0\<close> and \<open>__CUDA_PREC_SQRT = 0\<close>, and with both flags
  zero the map is empty.
\<close>

theorem reflect_mapping_determined_by_flags:
  "CreateNVVMReflectPass ftz fm = createNVVMReflectPass (spec_reflect_mapping ftz fm)
   \<and> ILGPU_RunNVVMReflectPassOnFunction L module func ftz fm w =
       FunctionPassManager_run L
         \<lparr>fpm_module = module,
          fpm_passes = [createNVVMReflectPass (spec_reflect_mapping ftz fm)]\<rparr>
         func w
   \<and> ILGPU_RunNVVMReflectPass L module ftz fm w =
       PassManager_run L [createNVVMReflectPass (spec_reflect_mapping ftz fm)] module w
   \<and> ILGPU_PreparePTXModule L module entry ftz fm w =
       PassManager_run L
         [createInternalizePass (\<lambda>val. address_of val = entry),
          createGlobalDCEPass,
          createNVVMReflectPass (spec_reflect_mapping ftz fm)] module w
   \<and> dom (spec_reflect_mapping ftz fm) =
       (if ftz \<noteq> 0 then {''__CUDA_FTZ''} else {})
       \<union> (if fm \<noteq> 0 then {''__CUDA_PREC_DIV'', ''__CUDA_PREC_SQRT''} else {})
   \<and> spec_reflect_mapping 0 0 = Map.empty"
proof -
  have "dom (spec_reflect_mapping ftz fm) =
       (if ftz \<noteq> 0 then {''__CUDA_FTZ''} else {})
       \<union> (if fm \<noteq> 0 then {''__CUDA_PREC_DIV'', ''__CUDA_PREC_SQRT''} else {})"
    by (auto simp: spec_reflect_mapping_def dom_def split: if_splits)
  moreover have "spec_reflect_mapping 0 0 = Map.empty"
    by (rule ext) (simp add: spec_reflect_mapping_def)
  ultimately show ?thesis
    by (simp only: RunOnFunction_unfold RunOnModule_unfold PreparePTXModule_unfold
        CreateNVVMReflectPass_mapping simp_thms)
qed

text \<open>
  Claim C2. Prepare-for-deployment (\<open>ILGPU_PreparePTXModule\<close>) runs one pass
  manager over the module, holding exactly three passes in this order: the
  internalize pass that keeps the entry point, global dead-code elimination,
  the reflect pass built from the two flags.
\<close>

theorem prepare_runs_three_passes_in_order:
  "ILGPU_PreparePTXModule L module entry ftz fm w =
     PassManager_run L
       [createInternalizePass (\<lambda>val. address_of val = unwrap entry),
        createGlobalDCEPass,
        CreateNVVMReflectPass ftz fm] (unwrap module) w"
  by (simp add: PreparePTXModule_unfold unwrap_def)

text \<open>
  Claim C3. The callback that Prepare-for-deployment gives the internalize
  pass is true of a global value exactly when its address is the entry
  handle's; a global value at another address with the entry point's name is
  not kept.
\<close>

theorem internalize_keeps_entry_by_identity:
  "\<exists>P. (\<forall>(L :: 'w llvm) w. ILGPU_PreparePTXModule L module entry ftz fm w =
           PassManager_run L
             [createInternalizePass P, createGlobalDCEPass, CreateNVVMReflectPass ftz fm]
             module w)
      \<and> (\<forall>val. P val \<longleftrightarrow> address_of val = entry)
      \<and> (\<forall>(e :: GlobalValue) val.
            address_of e = entry \<longrightarrow> getName val = getName e \<longrightarrow>
            address_of val \<noteq> address_of e \<longrightarrow> \<not> P val)"
  by (rule exI [of _ "\<lambda>val. address_of val = entry"]) (simp add: PreparePTXModule_unfold)

theorem internalize_keeps_entry_by_identity_witness:
  "\<exists>P. (\<forall>(L :: unit llvm) w. ILGPU_PreparePTXModule L 1 16 0 0 w =
           PassManager_run L
             [createInternalizePass P, createGlobalDCEPass, CreateNVVMReflectPass 0 0] 1 w)
      \<and> P \<lparr>address_of = 16, getName = ''kernel''\<rparr>
      \<and> \<not> P \<lparr>address_of = 32, getName = ''kernel''\<rparr>"
proof -
  from internalize_keeps_entry_by_identity [where 'w = unit, of 1 16 0 0]
  obtain P where run: "\<forall>(L :: unit llvm) w. ILGPU_PreparePTXModule L 1 16 0 0 w =
           PassManager_run L
             [createInternalizePass P, createGlobalDCEPass, CreateNVVMReflectPass 0 0] 1 w"
    and iff: "\<forall>val. P val \<longleftrightarrow> address_of val = 16"
    and names: "\<forall>(e :: GlobalValue) val.
            address_of e = 16 \<longrightarrow> getName val = getName e \<longrightarrow>
            address_of val \<noteq> address_of e \<longrightarrow> \<not> P val"
    by blast
  from iff have "P \<lparr>address_of = 16, getName = ''kernel''\<rparr>" by simp
  moreover from names [rule_format, of "\<lparr>address_of = 16, getName = ''kernel''\<rparr>"
      "\<lparr>address_of = 32, getName = ''kernel''\<rparr>"]
  have "\<not> P \<lparr>address_of = 32, getName = ''kernel''\<rparr>" by simp
  ultimately show ?thesis using run by blast
qed

text \<open>
  Claim C7. Run-on-function (\<open>ILGPU_RunNVVMReflectPassOnFunction\<close>) returns
  nothing and does one thing: it runs a function pass manager holding the
  reflect pass alone on the function it was given. Given that LLVM's function
  pass manager changes only the function it runs on, every other function and
  global of the module is as before.
\<close>

theorem run_on_function_frame:
  assumes "scoped_to_function L content"
  shows "ILGPU_RunNVVMReflectPassOnFunction L module func ftz fm w =
           FunctionPassManager_run L
             \<lparr>fpm_module = unwrap module, fpm_passes = [CreateNVVMReflectPass ftz fm]\<rparr>
             (unwrap func) w
         \<and> (\<forall>g. g \<noteq> func \<longrightarrow>
              content (ILGPU_RunNVVMReflectPassOnFunction L module func ftz fm w) g =
              content w g)"
  using assms by (simp add: RunOnFunction_unfold unwrap_def scoped_to_function_def)

theorem run_on_function_frame_witness:
  "scoped_to_function counting_llvm (\<lambda>w. w)
   \<and> ILGPU_RunNVVMReflectPassOnFunction counting_llvm 1 16 1 0 (\<lambda>g. 0) 16 = 1
   \<and> ILGPU_RunNVVMReflectPassOnFunction counting_llvm 1 16 1 0 (\<lambda>g. 0) 32 = 0"
proof -
  have scoped: "scoped_to_function counting_llvm (\<lambda>w. w)"
    by (simp add: scoped_to_function_def counting_llvm_def)
  note inst = run_on_function_frame [OF scoped, of 1 16 1 0 "\<lambda>g. 0"]
  from inst [THEN conjunct1]
  have run: "ILGPU_RunNVVMReflectPassOnFunction counting_llvm 1 16 1 0 (\<lambda>g. 0) =
           FunctionPassManager_run counting_llvm
             \<lparr>fpm_module = unwrap 1, fpm_passes = [CreateNVVMReflectPass 1 0]\<rparr>
             (unwrap 16) (\<lambda>g. 0)" .
  from inst [THEN conjunct2]
  have frame: "\<forall>g. g \<noteq> 16 \<longrightarrow>
       ILGPU_RunNVVMReflectPassOnFunction counting_llvm 1 16 1 0 (\<lambda>g. 0) g = 0" .
  from run have "ILGPU_RunNVVMReflectPassOnFunction counting_llvm 1 16 1 0 (\<lambda>g. 0) 16 = 1"
    by (simp add: counting_llvm_def unwrap_def)
  moreover from frame
  have "ILGPU_RunNVVMReflectPassOnFunction counting_llvm 1 16 1 0 (\<lambda>g. 0) 32 = 0"
    by simp
  ultimately show ?thesis using scoped by simp
qed

section \<open>The primitive-operation bridge\<close>

text \<open>
  Claim C4. Every primitive-operation export (sort, sort with index payload,
  segmented sort, segmented sort with index payload, scan; any element type,
  either ordering) is one call into CUB and nothing else: for every argument
  and every behaviour of CUB, the status it returns and the world it leaves
  are those of that call. Against a CUB that logs its calls, each export adds
  exactly one entry to the log.
\<close>

theorem exports_return_cub_status:
  "export_body (MAKE_RADIXSORT_GEN prefix variant cubName typeName cType) cub
     tempStorage tempStorageSize source target numElements beginBit endBit stream d =
   cub (''cub::DeviceRadixSort::'' @ cubName @ prefix) cType
     [PtrArg tempStorage, DerefArg tempStorageSize, PtrArg source, PtrArg target,
      IntArg (sint numElements), IntArg (sint beginBit), IntArg (sint endBit),
      PtrArg stream] d
   \<and> export_body (MAKE_RADIXSORT_GEN_Pairs prefix variant cubName typeName cType) cub
     tempStorage tempStorageSize source target valuesSource valuesTarget
     numElements beginBit endBit stream d =
   cub (''cub::DeviceRadixSort::'' @ cubName @ prefix) cType
     [PtrArg tempStorage, DerefArg tempStorageSize, PtrArg source, PtrArg target,
      PtrArg valuesSource, PtrArg valuesTarget,
      IntArg (sint numElements), IntArg (sint beginBit), IntArg (sint endBit),
      PtrArg stream] d
   \<and> export_body (MAKE_SEGMENTED_RADIXSORT_GEN prefix postfix variant cubName typeName cType)
     cub tempStorage tempStorageSize source target numElements beginOffsets endOffsets
     numSegments beginBit endBit stream d =
   cub (''cub::DeviceSegmentedRadixSort::'' @ cubName @ prefix) cType
     [PtrArg tempStorage, DerefArg tempStorageSize, PtrArg source, PtrArg target,
      IntArg (sint numElements), IntArg (sint numSegments),
      PtrArg beginOffsets, PtrArg endOffsets,
      IntArg (sint beginBit), IntArg (sint endBit), PtrArg stream] d
   \<and> export_body
     (MAKE_SEGMENTED_RADIXSORT_GEN_Pairs prefix postfix variant cubName typeName cType) cub
     tempStorage tempStorageSize source target valuesSource valuesTarget numElements
     beginOffsets endOffsets numSegments beginBit endBit stream d =
   cub (''cub::DeviceSegmentedRadixSort::'' @ cubName @ prefix) cType
     [PtrArg tempStorage, DerefArg tempStorageSize, PtrArg source, PtrArg target,
      PtrArg valuesSource, PtrArg valuesTarget,
      IntArg (sint numElements), IntArg (sint numSegments),
      PtrArg beginOffsets, PtrArg endOffsets,
      IntArg (sint beginBit), IntArg (sint endBit), PtrArg stream] d
   \<and> export_body (MAKE_SCAN variant typeName cType) cub
     tempStorage tempStorageSize source target count stream d =
   cub (''cub::DeviceScan::'' @ variant @ ''Sum'') cType
     [PtrArg tempStorage, DerefArg tempStorageSize, PtrArg source, PtrArg target,
      IntArg (if uint count < 2 ^ 31 then uint count else uint count - 2 ^ 32),
      PtrArg stream] d
   \<and> length (snd (export_body (MAKE_RADIXSORT_GEN prefix variant cubName typeName cType)
       recording_cub tempStorage tempStorageSize source target numElements beginBit endBit
       stream calls)) = Suc (length calls)
   \<and> length (snd (export_body (MAKE_RADIXSORT_GEN_Pairs prefix variant cubName typeName cType)
       recording_cub tempStorage tempStorageSize source target valuesSource valuesTarget
       numElements beginBit endBit stream calls)) = Suc (length calls)
   \<and> length (snd (export_body
       (MAKE_SEGMENTED_RADIXSORT_GEN prefix postfix variant cubName typeName cType)
       recording_cub tempStorage tempStorageSize source target numElements beginOffsets
       endOffsets numSegments beginBit endBit stream calls)) = Suc (length calls)
   \<and> length (snd (export_body
       (MAKE_SEGMENTED_RADIXSORT_GEN_Pairs prefix postfix variant cubName typeName cType)
       recording_cub tempStorage tempStorageSize source target valuesSource valuesTarget
       numElements beginOffsets endOffsets numSegments beginBit endBit stream calls)) =
       Suc (length calls)
   \<and> length (snd (export_body (MAKE_SCAN variant typeName cType)
       recording_cub tempStorage tempStorageSize source target count stream calls)) =
       Suc (length calls)"
proof -
  have one: "length (snd (recording_cub callee ty args calls)) = Suc (length calls)"
    for callee ty args calls
    by (simp add: recording_cub_def)
  show ?thesis
    by (simp only: RadixSort_body RadixSortPairs_body SegmentedRadixSort_body
        SegmentedRadixSortPairs_body Scan_body one simp_thms)
qed



text \<open>
  Claim C8. No export checks a pointer, a handle or a bound before it
  forwards. For every value of every parameter, null pointers and handles
  included, each primitive-operation export forms \<open>*tempStorageSize\<close> and
  makes its one call into CUB with the values in place, and each reflect-pass
  export hands its handles to the pass manager; so the result is always the
  library's, never a status of the bridge's own. In particular this holds
  in the sizing query (null scratch pointer) with a null scratch-size pointer,
  and with every pointer and handle null.
\<close>

theorem no_validation_before_forwarding:
  "export_body (MAKE_RADIXSORT_GEN prefix variant cubName typeName cType) cub
     tempStorage tempStorageSize source target numElements beginBit endBit stream d =
   cub (''cub::DeviceRadixSort::'' @ cubName @ prefix) cType
     [PtrArg tempStorage, DerefArg tempStorageSize, PtrArg source, PtrArg target,
      IntArg (sint numElements), IntArg (sint beginBit), IntArg (sint endBit),
      PtrArg stream] d
   \<and> export_body (MAKE_RADIXSORT_GEN_Pairs prefix variant cubName typeName cType) cub
     tempStorage tempStorageSize source target valuesSource valuesTarget
     numElements beginBit endBit stream d =
   cub (''cub::DeviceRadixSort::'' @ cubName @ prefix) cType
     [PtrArg tempStorage, DerefArg tempStorageSize, PtrArg source, PtrArg target,
      PtrArg valuesSource, PtrArg valuesTarget,
      IntArg (sint numElements), IntArg (sint beginBit), IntArg (sint endBit),
      PtrArg stream] d
   \<and> export_body (MAKE_SEGMENTED_RADIXSORT_GEN prefix postfix variant cubName typeName cType)
     cub tempStorage tempStorageSize source target numElements beginOffsets endOffsets
     numSegments beginBit endBit stream d =
   cub (''cub::DeviceSegmentedRadixSort::'' @ cubName @ prefix) cType
     [PtrArg tempStorage, DerefArg tempStorageSize, PtrArg source, PtrArg target,
      IntArg (sint numElements), IntArg (sint numSegments),
      PtrArg beginOffsets, PtrArg endOffsets,
      IntArg (sint beginBit), IntArg (sint endBit), PtrArg stream] d
   \<and> export_body
     (MAKE_SEGMENTED_RADIXSORT_GEN_Pairs prefix postfix variant cubName typeName cType) cub
     tempStorage tempStorageSize source target valuesSource valuesTarget numElements
     beginOffsets endOffsets numSegments beginBit endBit stream d =
   cub (''cub::DeviceSegmentedRadixSort::'' @ cubName @ prefix) cType
     [PtrArg tempStorage, DerefArg tempStorageSize, PtrArg source, PtrArg target,
      PtrArg valuesSource, PtrArg valuesTarget,
      IntArg (sint numElements), IntArg (sint numSegments),
      PtrArg beginOffsets, PtrArg endOffsets,
      IntArg (sint beginBit), IntArg (sint endBit), PtrArg stream] d
   \<and> export_body (MAKE_SCAN variant typeName cType) cub
     tempStorage tempStorageSize source target count stream d =
   cub (''cub::DeviceScan::'' @ variant @ ''Sum'') cType
     [PtrArg tempStorage, DerefArg tempStorageSize, PtrArg source, PtrArg target,
      IntArg (if uint count < 2 ^ 31 then uint count else uint count - 2 ^ 32),
      PtrArg stream] d
   \<and> ILGPU_PreparePTXModule L module entry ftz fm w =
       PassManager_run L
         [createInternalizePass (\<lambda>val. address_of val = entry),
          createGlobalDCEPass,
          CreateNVVMReflectPass ftz fm] module w
   \<and> ILGPU_RunNVVMReflectPass L module ftz fm w =
       PassManager_run L [CreateNVVMReflectPass ftz fm] module w
   \<and> ILGPU_RunNVVMReflectPassOnFunction L module func ftz fm w =
       FunctionPassManager_run L
         \<lparr>fpm_module = module, fpm_passes = [CreateNVVMReflectPass ftz fm]\<rparr> func w
   \<and> export_body (MAKE_RADIXSORT_GEN prefix variant cubName typeName cType) cub
     NULL NULL source target numElements beginBit endBit stream d =
   cub (''cub::DeviceRadixSort::'' @ cubName @ prefix) cType
     [PtrArg NULL, DerefArg NULL, PtrArg source, PtrArg target,
      IntArg (sint numElements), IntArg (sint beginBit), IntArg (sint endBit),
      PtrArg stream] d
   \<and> export_body (MAKE_RADIXSORT_GEN_Pairs prefix variant cubName typeName cType) cub
     NULL NULL source target valuesSource valuesTarget numElements beginBit endBit stream d =
   cub (''cub::DeviceRadixSort::'' @ cubName @ prefix) cType
     [PtrArg NULL, DerefArg NULL, PtrArg source, PtrArg target,
      PtrArg valuesSource, PtrArg valuesTarget,
      IntArg (sint numElements), IntArg (sint beginBit), IntArg (sint endBit),
      PtrArg stream] d
   \<and> export_body (MAKE_SEGMENTED_RADIXSORT_GEN prefix postfix variant cubName typeName cType)
     cub NULL NULL source target numElements beginOffsets endOffsets
     numSegments beginBit endBit stream d =
   cub (''cub::DeviceSegmentedRadixSort::'' @ cubName @ prefix) cType
     [PtrArg NULL, DerefArg NULL, PtrArg source, PtrArg target,
      IntArg (sint numElements), IntArg (sint numSegments),
      PtrArg beginOffsets, PtrArg endOffsets,
      IntArg (sint beginBit), IntArg (sint endBit), PtrArg stream] d
   \<and> export_body
     (MAKE_SEGMENTED_RADIXSORT_GEN_Pairs prefix postfix variant cubName typeName cType) cub
     NULL NULL source target valuesSource valuesTarget numElements
     beginOffsets endOffsets numSegments beginBit endBit stream d =
   cub (''cub::DeviceSegmentedRadixSort::'' @ cubName @ prefix) cType
     [PtrArg NULL, DerefArg NULL, PtrArg source, PtrArg target,
      PtrArg valuesSource, PtrArg valuesTarget,
      IntArg (sint numElements), IntArg (sint numSegments),
      PtrArg beginOffsets, PtrArg endOffsets,
      IntArg (sint beginBit), IntArg (sint endBit), PtrArg stream] d
   \<and> export_body (MAKE_SCAN variant typeName cType) cub
     NULL NULL source target count stream d =
   cub (''cub::DeviceScan::'' @ variant @ ''Sum'') cType
     [PtrArg NULL, DerefArg NULL, PtrArg source, PtrArg target,
      IntArg (if uint count < 2 ^ 31 then uint count else uint count - 2 ^ 32),
      PtrArg stream] d
   \<and> export_body (MAKE_RADIXSORT_GEN prefix variant cubName typeName cType) cub
     NULL NULL NULL NULL numElements beginBit endBit NULL d =
   cub (''cub::DeviceRadixSort::'' @ cubName @ prefix) cType
     [PtrArg NULL, DerefArg NULL, PtrArg NULL, PtrArg NULL,
      IntArg (sint numElements), IntArg (sint beginBit), IntArg (sint endBit),
      PtrArg NULL] d
   \<and> export_body (MAKE_RADIXSORT_GEN_Pairs prefix variant cubName typeName cType) cub
     NULL NULL NULL NULL NULL NULL numElements beginBit endBit NULL d =
   cub (''cub::DeviceRadixSort::'' @ cubName @ prefix) cType
     [PtrArg NULL, DerefArg NULL, PtrArg NULL, PtrArg NULL, PtrArg NULL, PtrArg NULL,
      IntArg (sint numElements), IntArg (sint beginBit), IntArg (sint endBit),
      PtrArg NULL] d
   \<and> export_body (MAKE_SEGMENTED_RADIXSORT_GEN prefix postfix variant cubName typeName cType)
     cub NULL NULL NULL NULL numElements NULL NULL numSegments beginBit endBit NULL d =
   cub (''cub::DeviceSegmentedRadixSort::'' @ cubName @ prefix) cType
     [PtrArg NULL, DerefArg NULL, PtrArg NULL, PtrArg NULL,
      IntArg (sint numElements), IntArg (sint numSegments), PtrArg NULL, PtrArg NULL,
      IntArg (sint beginBit), IntArg (sint endBit), PtrArg NULL] d
   \<and> export_body
     (MAKE_SEGMENTED_RADIXSORT_GEN_Pairs prefix postfix variant cubName typeName cType) cub
     NULL NULL NULL NULL NULL NULL numElements NULL NULL numSegments beginBit endBit NULL d =
   cub (''cub::DeviceSegmentedRadixSort::'' @ cubName @ prefix) cType
     [PtrArg NULL, DerefArg NULL, PtrArg NULL, PtrArg NULL, PtrArg NULL, PtrArg NULL,
      IntArg (sint numElements), IntArg (sint numSegments), PtrArg NULL, PtrArg NULL,
      IntArg (sint beginBit), IntArg (sint endBit), PtrArg NULL] d
   \<and> export_body (MAKE_SCAN variant typeName cType) cub NULL NULL NULL NULL count NULL d =
   cub (''cub::DeviceScan::'' @ variant @ ''Sum'') cType
     [PtrArg NULL, DerefArg NULL, PtrArg NULL, PtrArg NULL,
      IntArg (if uint count < 2 ^ 31 then uint count else uint count - 2 ^ 32),
      PtrArg NULL] d
   \<and> ILGPU_PreparePTXModule L NULL NULL ftz fm w =
       PassManager_run L
         [createInternalizePass (\<lambda>val. address_of val = NULL),
          createGlobalDCEPass,
          CreateNVVMReflectPass ftz fm] NULL w
   \<and> ILGPU_RunNVVMReflectPass L NULL ftz fm w =
       PassManager_run L [CreateNVVMReflectPass ftz fm] NULL w
   \<and> ILGPU_RunNVVMReflectPassOnFunction L NULL NULL ftz fm w =
       FunctionPassManager_run L
         \<lparr>fpm_module = NULL, fpm_passes = [CreateNVVMReflectPass ftz fm]\<rparr> NULL w"
  by (simp only: RadixSort_body RadixSortPairs_body SegmentedRadixSort_body
      SegmentedRadixSortPairs_body Scan_body PreparePTXModule_unfold RunOnModule_unfold
      RunOnFunction_unfold simp_thms)

text \<open>
  Claim C9. A scan export takes its element count as \<open>uint32_t\<close> and hands
  CUB \<open>(int)numElements\<close>: the count itself below \<open>2^31\<close>, and the negative
  number \<open>count - 2^32\<close> from \<open>2^31\<close> on. The sort exports take the count as
  \<open>int32_t\<close> and hand CUB the same value.
\<close>

theorem scan_count_wraps_sort_count_kept:
  "export_body (MAKE_SCAN variant typeName cType) cub
     tempStorage tempStorageSize source target numElements stream d =
   cub (''cub::DeviceScan::'' @ variant @ ''Sum'') cType
     [PtrArg tempStorage, DerefArg tempStorageSize, PtrArg source, PtrArg target,
      IntArg (if uint numElements < 2 ^ 31 then uint numElements
              else uint numElements - 2 ^ 32),
      PtrArg stream] d
   \<and> c_int (uint numElements) =
       (if uint numElements < 2 ^ 31 then uint numElements else uint numElements - 2 ^ 32)
   \<and> (if uint numElements < 2 ^ 31 then 0 \<le> c_int (uint numElements)
       else c_int (uint numElements) < 0)
   \<and> export_body (MAKE_RADIXSORT_GEN prefix variant' cubName typeName cType) cub
     tempStorage tempStorageSize source target count beginBit endBit stream d =
   cub (''cub::DeviceRadixSort::'' @ cubName @ prefix) cType
     [PtrArg tempStorage, DerefArg tempStorageSize, PtrArg source, PtrArg target,
      IntArg (sint count), IntArg (sint beginBit), IntArg (sint endBit),
      PtrArg stream] d
   \<and> export_body (MAKE_RADIXSORT_GEN_Pairs prefix variant' cubName typeName cType) cub
     tempStorage tempStorageSize source target valuesSource valuesTarget
     count beginBit endBit stream d =
   cub (''cub::DeviceRadixSort::'' @ cubName @ prefix) cType
     [PtrArg tempStorage, DerefArg tempStorageSize, PtrArg source, PtrArg target,
      PtrArg valuesSource, PtrArg valuesTarget,
      IntArg (sint count), IntArg (sint beginBit), IntArg (sint endBit),
      PtrArg stream] d
   \<and> export_body (MAKE_SEGMENTED_RADIXSORT_GEN prefix postfix variant' cubName typeName cType)
     cub tempStorage tempStorageSize source target count beginOffsets endOffsets
     numSegments beginBit endBit stream d =
   cub (''cub::DeviceSegmentedRadixSort::'' @ cubName @ prefix) cType
     [PtrArg tempStorage, DerefArg tempStorageSize, PtrArg source, PtrArg target,
      IntArg (sint count), IntArg (sint numSegments),
      PtrArg beginOffsets, PtrArg endOffsets,
      IntArg (sint beginBit), IntArg (sint endBit), PtrArg stream] d
   \<and> export_body
     (MAKE_SEGMENTED_RADIXSORT_GEN_Pairs prefix postfix variant' cubName typeName cType) cub
     tempStorage tempStorageSize source target valuesSource valuesTarget count
     beginOffsets endOffsets numSegments beginBit endBit stream d =
   cub (''cub::DeviceSegmentedRadixSort::'' @ cubName @ prefix) cType
     [PtrArg tempStorage, DerefArg tempStorageSize, PtrArg source, PtrArg target,
      PtrArg valuesSource, PtrArg valuesTarget,
      IntArg (sint count), IntArg (sint numSegments),
      PtrArg beginOffsets, PtrArg endOffsets,
      IntArg (sint beginBit), IntArg (sint endBit), PtrArg stream] d
   \<and> c_int (sint count) = sint count"
proof -
  have "uint numElements < 2 ^ 32"
    using uint_bounded [of numElements] by simp
  then have "if uint numElements < 2 ^ 31 then 0 \<le> c_int (uint numElements)
       else c_int (uint numElements) < 0"
    by (simp add: c_int_uint)
  then show ?thesis
    by (simp only: RadixSort_body RadixSortPairs_body SegmentedRadixSort_body
        SegmentedRadixSortPairs_body Scan_body c_int_uint c_int_sint simp_thms)
qed

text \<open>
  Claim C10. A segmented-sort export, with or without index payload, lists
  \<open>numElements, beginOffsets, endOffsets, numSegments\<close> in its signature and
  hands CUB \<open>numElements, numSegments, beginOffsets, endOffsets\<close>: the call's
  arguments are the signature's, each with its value, moved by one fixed
  permutation of the positions.
\<close>

theorem segmented_arguments_permuted:
  "export_body (MAKE_SEGMENTED_RADIXSORT_GEN prefix postfix variant cubName typeName cType)
     cub tempStorage tempStorageSize source target numElements beginOffsets endOffsets
     numSegments beginBit endBit stream d =
   cub (''cub::DeviceSegmentedRadixSort::'' @ cubName @ prefix) cType
     (map ((!)
       [PtrArg tempStorage, DerefArg tempStorageSize, PtrArg source, PtrArg target,
        IntArg (sint numElements), PtrArg beginOffsets, PtrArg endOffsets,
        IntArg (sint numSegments), IntArg (sint beginBit), IntArg (sint endBit),
        PtrArg stream])
       [0, 1, 2, 3, 4, 7, 5, 6, 8, 9, 10]) d
   \<and> export_body
     (MAKE_SEGMENTED_RADIXSORT_GEN_Pairs prefix postfix variant cubName typeName cType) cub
     tempStorage tempStorageSize source target valuesSource valuesTarget numElements
     beginOffsets endOffsets numSegments beginBit endBit stream d =
   cub (''cub::DeviceSegmentedRadixSort::'' @ cubName @ prefix) cType
     (map ((!)
       [PtrArg tempStorage, DerefArg tempStorageSize, PtrArg source, PtrArg target,
        PtrArg valuesSource, PtrArg valuesTarget,
        IntArg (sint numElements), PtrArg beginOffsets, PtrArg endOffsets,
        IntArg (sint numSegments), IntArg (sint beginBit), IntArg (sint endBit),
        PtrArg stream])
       [0, 1, 2, 3, 4, 5, 6, 9, 7, 8, 10, 11, 12]) d
   \<and> map ((!)
       [PtrArg tempStorage, DerefArg tempStorageSize, PtrArg source, PtrArg target,
        IntArg (sint numElements), PtrArg beginOffsets, PtrArg endOffsets,
        IntArg (sint numSegments), IntArg (sint beginBit), IntArg (sint endBit),
        PtrArg stream])
       [0, 1, 2, 3, 4, 7, 5, 6, 8, 9, 10] =
     [PtrArg tempStorage, DerefArg tempStorageSize, PtrArg source, PtrArg target,
      IntArg (sint numElements), IntArg (sint numSegments),
      PtrArg beginOffsets, PtrArg endOffsets,
      IntArg (sint beginBit), IntArg (sint endBit), PtrArg stream]"
  by (simp add: SegmentedRadixSort_body SegmentedRadixSortPairs_body)

end
